theory Spec2Isabelle
  imports Complex_Main "HOL-Library.Multiset"
begin

section \<open>Data model\<close>

text \<open>
  The scripts work on pandas objects holding floating-point numbers. The embedding keeps
  the shape of those objects and idealises the numbers:

  \<^item> a \<open>pd.Series\<close> indexed by ticker is a list of (label, value) pairs, in index order;
  \<^item> a column of a \<open>pd.DataFrame\<close> is the list of its values, oldest row first;
  \<^item> a number that comes from outside (a price, a dividend, a return, a weight handed to
    \<open>apply_constraints\<close>) is a finite real, and arithmetic on finite numbers is exact:
    rounding error is not modelled;
  \<^item> a number that a computation can push out of the finite range (a division by zero,
    the standard deviation of fewer than two samples) is a float \<open>fval\<close>: finite, plus or
    minus infinity, or NaN. Zero is taken as positive zero.

  Where the steps of a function on infinite or NaN values are not followed further, the
  function returns \<open>None\<close> and its text says so.
\<close>

datatype fval = Fin real | PInf | NInf | NaN


type_synonym frame = "(string \<times> real list) list"

text \<open>
  Exceptions are values: a function that can raise returns \<open>py_error + 'a\<close>, with
  \<open>Inl\<close> the exception that leaves the function.
\<close>

datatype py_error = HTTPError | AttributeError | TypeError | KeyError | IndexError | ValueError

definition bindE :: "py_error + 'a \<Rightarrow> ('a \<Rightarrow> py_error + 'b) \<Rightarrow> py_error + 'b" where
  "bindE m f = (case m of Inl e \<Rightarrow> Inl e | Inr x \<Rightarrow> f x)"

section \<open>fetch\_mf\_nav.py\<close>

text \<open>
  A decoded JSON body. \<open>JNull\<close> is Python's \<open>None\<close>. An object keeps its members in
  document order; the decoder lets a later duplicate key win.
\<close>

datatype json
  = JNull
  | JBool bool
  | JNum real
  | JStr string
  | JList "json list"
  | JObj "(string \<times> json) list"

text \<open>Python truthiness, as used by \<open>x if nav_data else y\<close>.\<close>

fun truthy :: "json \<Rightarrow> bool" where
  "truthy JNull = False"
| "truthy (JBool b) = b"
| "truthy (JNum x) = (x \<noteq> 0)"
| "truthy (JStr s) = (s \<noteq> [])"
| "truthy (JList xs) = (xs \<noteq> [])"
| "truthy (JObj kvs) = (kvs \<noteq> [])"

text \<open>\<open>v.get(key, default)\<close>: only a dict has the method.\<close>

fun py_get :: "json \<Rightarrow> string \<Rightarrow> json \<Rightarrow> py_error + json" where
  "py_get (JObj kvs) key dflt =
     Inr (case map_of (rev kvs) key of None \<Rightarrow> dflt | Some v \<Rightarrow> v)"
| "py_get _ key dflt = Inl AttributeError"

text \<open>\<open>v[0]\<close>. The keys of a decoded object are strings, so the key \<open>0\<close> is never present.\<close>

fun py_first :: "json \<Rightarrow> py_error + json" where
  "py_first (JList (x # xs)) = Inr x"
| "py_first (JList []) = Inl IndexError"
| "py_first (JStr (c # cs)) = Inr (JStr [c])"
| "py_first (JStr []) = Inl IndexError"
| "py_first (JObj kvs) = Inl KeyError"
| "py_first _ = Inl TypeError"

text \<open>
  \<open>float(v)\<close>. How Python reads a string as a number is the parameter \<open>parse\<close>
  (\<open>None\<close>: the string is not a number, \<open>ValueError\<close>).
\<close>

fun py_float :: "(string \<Rightarrow> real option) \<Rightarrow> json \<Rightarrow> py_error + real" where
  "py_float parse (JNum x) = Inr x"
| "py_float parse (JBool b) = Inr (if b then 1 else 0)"
| "py_float parse (JStr s) = (case parse s of None \<Rightarrow> Inl ValueError | Some x \<Rightarrow> Inr x)"
| "py_float parse _ = Inl TypeError"

text \<open>
  \<open>get_mf_nav\<close> is the HTTP round trip: \<open>httpx.get\<close>, \<open>raise_for_status\<close>, \<open>resp.json()\<close>.
  The service is the parameter \<open>api\<close>: for a scheme code, the exception raised or the
  decoded body.
\<close>

type_synonym mfapi = "int \<Rightarrow> py_error + json"

definition get_mf_nav :: "mfapi \<Rightarrow> int \<Rightarrow> py_error + json" where
  "get_mf_nav api scheme_code = api scheme_code"

record nav_info =
  scheme_code :: int
  scheme_name :: json
  fund_house :: json
  nav :: "real option"
  date :: json

text \<open>
  \<^verbatim>\<open>
  data = get_mf_nav(scheme_code)
  meta = data.get("meta", {})
  nav_data = data.get("data", [])
  latest = nav_data[0] if nav_data else {}
  return {
      "scheme_code": scheme_code,
      "scheme_name": meta.get("scheme_name"),
      "fund_house": meta.get("fund_house"),
      "nav": float(latest.get("nav", 0)) if latest else None,
      "date": latest.get("date"),
  }
  \<close>
\<close>

definition get_latest_nav ::
  "mfapi \<Rightarrow> (string \<Rightarrow> real option) \<Rightarrow> int \<Rightarrow> py_error + nav_info" where
  "get_latest_nav api parse code =
     bindE (get_mf_nav api code) (\<lambda>data.
     bindE (py_get data ''meta'' (JObj [])) (\<lambda>meta.
     bindE (py_get data ''data'' (JList [])) (\<lambda>nav_data.
     bindE (if truthy nav_data then py_first nav_data else Inr (JObj [])) (\<lambda>latest.
     bindE (py_get meta ''scheme_name'' JNull) (\<lambda>name.
     bindE (py_get meta ''fund_house'' JNull) (\<lambda>house.
     bindE (if truthy latest
            then bindE (py_get latest ''nav'' (JNum 0))
                   (\<lambda>v. bindE (py_float parse v) (\<lambda>x. Inr (Some x)))
            else Inr None) (\<lambda>nav_value.
     bindE (py_get latest ''date'' JNull) (\<lambda>date_value.
     Inr \<lparr>scheme_code = code, scheme_name = name, fund_house = house,
          nav = nav_value, date = date_value\<rparr>))))))))"

section \<open>Fetching price history\<close>

subsection \<open>History frames and float values\<close>

text \<open>
  \<open>yf.Ticker(t).history(period)\<close> returns a frame indexed by date with (among others) the
  columns \<open>Close\<close> and \<open>Dividends\<close>. A history is the list of its rows, oldest first:
  (date, Close, Dividends), the numbers finite reals. The service is a parameter: for a
  ticker, the exception the call raises or the history it returns.
\<close>

type_synonym date = nat

type_synonym hist = "(date \<times> real \<times> real) list"

type_synonym yfinance = "string \<Rightarrow> py_error + hist"

text \<open>
  The vectorised index of allocate.py divides without a guard, so a total return series
  holds floats that may be infinite or NaN.
\<close>

type_synonym tseries = "(date \<times> fval) list"

record dataframe =
  index :: "date list"
  columns :: "(string \<times> fval list) list"

text \<open>
  \<open>pd.concat(dfs, axis=1).dropna()\<close>: the columns are aligned on the sorted union of their
  dates, a date missing from a column gives NaN there, and every row holding a NaN is
  dropped.
\<close>

definition concat_dropna :: "(string \<times> tseries) list \<Rightarrow> dataframe" where
  "concat_dropna dfs =
     (let dates = sort (remdups (concat (map (\<lambda>(t, s). map fst s) dfs)));
          complete = (\<lambda>d. list_all (\<lambda>(t, s). case map_of s d of None \<Rightarrow> False
                                                | Some v \<Rightarrow> v \<noteq> NaN) dfs);
          kept = filter complete dates
      in \<lparr>index = kept,
          columns = map (\<lambda>(t, s). (t, List.map_filter (map_of s) kept)) dfs\<rparr>)"

subsection \<open>Compounded index (us\_portfolio\_allocation.py, canadian\_nyse\_only.py)\<close>

text \<open>
  \<^verbatim>\<open>
  total_return_index = close.copy()
  cumulative_dividends = 0.0
  for i in range(len(close)):
      if i > 0:
          div_yield = dividends.iloc[i] / close.iloc[i-1] if close.iloc[i-1] != 0 else 0
          cumulative_dividends = (1 + cumulative_dividends) * (1 + div_yield) - 1
          total_return_index.iloc[i] = close.iloc[i] * (1 + cumulative_dividends)
  \<close>
  The loop over \<open>i > 0\<close> is a recursion over the rows after the first that carries
  \<open>close.iloc[i-1]\<close> and \<open>cumulative_dividends\<close>.
\<close>

fun compound_from :: "real \<Rightarrow> real \<Rightarrow> hist \<Rightarrow> (date \<times> real) list" where
  "compound_from prev_close cumulative_dividends [] = []"
| "compound_from prev_close cumulative_dividends ((dt, c, d) # rows) =
     (let div_yield = (if prev_close \<noteq> 0 then d / prev_close else 0);
          cumulative_dividends' = (1 + cumulative_dividends) * (1 + div_yield) - 1
      in (dt, c * (1 + cumulative_dividends')) # compound_from c cumulative_dividends' rows)"

fun total_return_index :: "hist \<Rightarrow> (date \<times> real) list" where
  "total_return_index [] = []"
| "total_return_index ((dt, c, d) # rows) = (dt, c) # compound_from c 0 rows"

subsection \<open>Vectorised index (allocate.py)\<close>

text \<open>
  \<^verbatim>\<open>
  c, d = h['Close'], h['Dividends']
  tr = c * (1 + (d / c.shift(1)).fillna(0).cumsum())
  \<close>
  Each pandas operation is a list function on float values.
\<close>

definition shift1 :: "real list \<Rightarrow> fval list" where
  "shift1 c = (if c = [] then [] else NaN # map Fin (butlast c))"

fun fdiv :: "real \<Rightarrow> fval \<Rightarrow> fval" where
  "fdiv d (Fin s) = (if s \<noteq> 0 then Fin (d / s)
                     else if 0 < d then PInf else if d < 0 then NInf else NaN)"
| "fdiv d NaN = NaN"
| "fdiv d PInf = Fin 0"
| "fdiv d NInf = Fin 0"

fun fillna0 :: "fval \<Rightarrow> fval" where
  "fillna0 NaN = Fin 0"
| "fillna0 v = v"

fun fadd :: "fval \<Rightarrow> fval \<Rightarrow> fval" where
  "fadd (Fin a) (Fin b) = Fin (a + b)"
| "fadd NaN _ = NaN"
| "fadd _ NaN = NaN"
| "fadd PInf NInf = NaN"
| "fadd NInf PInf = NaN"
| "fadd PInf _ = PInf"
| "fadd _ PInf = PInf"
| "fadd NInf _ = NInf"
| "fadd _ NInf = NInf"

fun cumsum_from :: "fval \<Rightarrow> fval list \<Rightarrow> fval list" where
  "cumsum_from acc [] = []"
| "cumsum_from acc (x # xs) = fadd acc x # cumsum_from (fadd acc x) xs"

fun cumsum :: "fval list \<Rightarrow> fval list" where
  "cumsum [] = []"
| "cumsum (x # xs) = x # cumsum_from x xs"

text \<open>\<open>c * (1 + s)\<close> for a finite \<open>c\<close> and a float \<open>s\<close>.\<close>

fun one_plus_times :: "real \<Rightarrow> fval \<Rightarrow> fval" where
  "one_plus_times c (Fin s) = Fin (c * (1 + s))"
| "one_plus_times c NaN = NaN"
| "one_plus_times c PInf = (if 0 < c then PInf else if c < 0 then NInf else NaN)"
| "one_plus_times c NInf = (if 0 < c then NInf else if c < 0 then PInf else NaN)"

definition tr_vectorized :: "hist \<Rightarrow> tseries" where
  "tr_vectorized h =
     (let c = map (\<lambda>(dt, c, d). c) h; d = map (\<lambda>(dt, c, d). d) h
      in zip (map fst h)
           (map2 one_plus_times c (cumsum (map fillna0 (map2 fdiv d (shift1 c))))))"

text \<open>
  The same series, row by row: \<open>vectorized_from\<close> carries the previous close and the running
  sum. It is used in proofs only; \<open>tr_vectorized_rows\<close> below relates the two.
\<close>

fun vectorized_from :: "real \<Rightarrow> fval \<Rightarrow> hist \<Rightarrow> tseries" where
  "vectorized_from prev_close acc [] = []"
| "vectorized_from prev_close acc ((dt, c, d) # rows) =
     (let acc' = fadd acc (fillna0 (fdiv d (Fin prev_close)))
      in (dt, one_plus_times c acc') # vectorized_from c acc' rows)"

subsection \<open>The fetch routines\<close>

text \<open>
  us\_portfolio\_allocation.py, \<open>fetch_total_return_index\<close>: no \<open>try\<close>; an empty history is
  skipped; \<open>pd.concat\<close> of an empty list raises \<open>ValueError\<close>.
  \<^verbatim>\<open>
  dfs = []
  for ticker in tickers:
      t = yf.Ticker(ticker)
      hist = t.history(period=period)
      if not hist.empty:
          ...
          dfs.append(total_return_index.rename(ticker))
  return pd.concat(dfs, axis=1).dropna()
  \<close>
\<close>

definition as_floats :: "(date \<times> real) list \<Rightarrow> tseries" where
  "as_floats s = map (\<lambda>(dt, v). (dt, Fin v)) s"

fun collect_us :: "yfinance \<Rightarrow> string list \<Rightarrow> (string \<times> tseries) list
                     \<Rightarrow> py_error + (string \<times> tseries) list" where
  "collect_us yf [] dfs = Inr dfs"
| "collect_us yf (ticker # tickers) dfs =
     (case yf ticker of
        Inl e \<Rightarrow> Inl e
      | Inr hist \<Rightarrow>
          if hist \<noteq> []
          then collect_us yf tickers (dfs @ [(ticker, as_floats (total_return_index hist))])
          else collect_us yf tickers dfs)"

definition fetch_total_return_index :: "yfinance \<Rightarrow> string list \<Rightarrow> py_error + dataframe" where
  "fetch_total_return_index yf tickers =
     bindE (collect_us yf tickers [])
       (\<lambda>dfs. if dfs = [] then Inl ValueError else Inr (concat_dropna dfs))"

text \<open>
  allocate.py, \<open>fetch\<close>: the same loop around the vectorised index, again with no \<open>try\<close>.
  \<^verbatim>\<open>
  for t in tickers:
      h = yf.Ticker(t).history(period=period)
      if h.empty:
          continue
      c, d = h['Close'], h['Dividends']
      tr = c * (1 + (d / c.shift(1)).fillna(0).cumsum())
      dfs.append(tr.rename(t))
  return pd.concat(dfs, axis=1).dropna()
  \<close>
\<close>

fun collect_alloc :: "yfinance \<Rightarrow> string list \<Rightarrow> (string \<times> tseries) list
                     \<Rightarrow> py_error + (string \<times> tseries) list" where
  "collect_alloc yf [] dfs = Inr dfs"
| "collect_alloc yf (t # tickers) dfs =
     (case yf t of
        Inl e \<Rightarrow> Inl e
      | Inr h \<Rightarrow>
          if h = [] then collect_alloc yf tickers dfs
          else collect_alloc yf tickers (dfs @ [(t, tr_vectorized h)]))"

definition fetch :: "yfinance \<Rightarrow> string list \<Rightarrow> py_error + dataframe" where
  "fetch yf tickers =
     bindE (collect_alloc yf tickers [])
       (\<lambda>dfs. if dfs = [] then Inl ValueError else Inr (concat_dropna dfs))"

text \<open>
  canadian\_nyse\_only.py, \<open>fetch_total_return_index\<close>: the body of the loop is inside
  \<open>try: ... except Exception as e: print(...); continue\<close>, and an empty \<open>dfs\<close> gives an empty
  frame. The printed warning is not modelled.
  \<^verbatim>\<open>
  for ticker in tickers:
      try:
          t = yf.Ticker(ticker)
          hist = t.history(period=period)
          if not hist.empty:
              ...
              dfs.append(total_return_index.rename(ticker))
      except Exception as e:
          print(f"Warning: Could not fetch data for {ticker}: {e}")
          continue
  if not dfs:
      return pd.DataFrame()
  return pd.concat(dfs, axis=1).dropna()
  \<close>
\<close>

fun collect_cdn :: "yfinance \<Rightarrow> string list \<Rightarrow> (string \<times> tseries) list
                     \<Rightarrow> py_error + (string \<times> tseries) list" where
  "collect_cdn yf [] dfs = Inr dfs"
| "collect_cdn yf (ticker # tickers) dfs =
     (case yf ticker of
        Inl e \<Rightarrow> collect_cdn yf tickers dfs
      | Inr hist \<Rightarrow>
          if hist \<noteq> []
          then collect_cdn yf tickers (dfs @ [(ticker, as_floats (total_return_index hist))])
          else collect_cdn yf tickers dfs)"

definition cdn_fetch_total_return_index :: "yfinance \<Rightarrow> string list \<Rightarrow> py_error + dataframe" where
  "cdn_fetch_total_return_index yf tickers =
     bindE (collect_cdn yf tickers [])
       (\<lambda>dfs. if dfs = [] then Inr \<lparr>index = [], columns = []\<rparr> else Inr (concat_dropna dfs))"

text \<open>
  An example service, used to evaluate the routines: the request for XOM fails with an HTTP
  error, every other ticker has a two-day history without dividends.
\<close>

definition flaky_yf :: yfinance where
  "flaky_yf t = (if t = ''XOM'' then Inl HTTPError else Inr [(0, 100, 0), (1, 101, 0)])"

section \<open>us\_portfolio\_allocation.py: scores\<close>

text \<open>
  The calculators receive the frame of prices (and the frame of daily returns derived from
  it) as columns of finite reals; the date index plays no role in them. \<open>len(prices)\<close> is
  the number of rows. What they compute is a float.
\<close>

type_synonym fseries = "(string \<times> fval) list"

definition nrows :: "frame \<Rightarrow> nat" where
  "nrows prices = (case prices of [] \<Rightarrow> 0 | (t, col) # _ \<Rightarrow> length col)"

definition wf_frame :: "frame \<Rightarrow> bool" where
  "wf_frame prices \<longleftrightarrow>
     distinct (map fst prices) \<and> (\<forall>(t, col) \<in> set prices. length col = nrows prices)"

subsection \<open>Float arithmetic\<close>

text \<open>\<open>v * k\<close> and \<open>v - k\<close> for a finite \<open>k\<close>, and the quotient of two floats.\<close>

fun ftimes :: "fval \<Rightarrow> real \<Rightarrow> fval" where
  "ftimes (Fin v) k = Fin (v * k)"
| "ftimes NaN k = NaN"
| "ftimes PInf k = (if 0 < k then PInf else if k < 0 then NInf else NaN)"
| "ftimes NInf k = (if 0 < k then NInf else if k < 0 then PInf else NaN)"

fun fminus :: "fval \<Rightarrow> real \<Rightarrow> fval" where
  "fminus (Fin v) k = Fin (v - k)"
| "fminus v k = v"

fun fdivide :: "fval \<Rightarrow> fval \<Rightarrow> fval" where
  "fdivide (Fin a) s = fdiv a s"
| "fdivide NaN s = NaN"
| "fdivide PInf (Fin b) = (if b < 0 then NInf else PInf)"
| "fdivide NInf (Fin b) = (if b < 0 then PInf else NInf)"
| "fdivide PInf _ = NaN"
| "fdivide NInf _ = NaN"

subsection \<open>calculate\_momentum\<close>

text \<open>
  \<^verbatim>\<open>
  if len(prices) < lookback:
      lookback = len(prices)
  return (prices.iloc[-1] / prices.iloc[-lookback]) - 1
  \<close>
  \<open>iloc[-k]\<close> is the row \<open>k\<close> from the end (\<open>iloc[-0]\<close> is the first row) and raises
  \<open>IndexError\<close> outside the frame.
\<close>

definition iloc_neg :: "nat \<Rightarrow> nat \<Rightarrow> py_error + nat" where
  "iloc_neg n k = (if k = 0 then (if n = 0 then Inl IndexError else Inr 0)
                   else if k \<le> n then Inr (n - k) else Inl IndexError)"

definition calculate_momentum :: "frame \<Rightarrow> nat \<Rightarrow> py_error + fseries" where
  "calculate_momentum prices lookback =
     (let lookback' = (if nrows prices < lookback then nrows prices else lookback)
      in bindE (iloc_neg (nrows prices) 1) (\<lambda>i.
         bindE (iloc_neg (nrows prices) lookback') (\<lambda>j.
         Inr (map (\<lambda>(t, col). (t, fminus (fdiv (col ! i) (Fin (col ! j))) 1)) prices))))"

subsection \<open>calculate\_downside\_volatility\<close>

text \<open>
  \<open>Series.std()\<close> is the sample standard deviation (\<open>ddof=1\<close>): NaN for fewer than two
  values.
\<close>

definition mean :: "real list \<Rightarrow> real" where
  "mean xs = sum_list xs / real (length xs)"

definition std :: "real list \<Rightarrow> fval" where
  "std xs = (if length xs < 2 then NaN
             else Fin (sqrt (sum_list (map (\<lambda>x. (x - mean xs)\<^sup>2) xs) / real (length xs - 1))))"

text \<open>
  \<^verbatim>\<open>
  for col in returns.columns:
      col_returns = returns[col].dropna()
      negative_returns = col_returns[col_returns < 0]
      if len(negative_returns) > 0:
          downside_vol[col] = negative_returns.std() * np.sqrt(252)
      else:
          downside_vol[col] = 0.0001  # Avoid division by zero
  \<close>
\<close>

definition downside_vol_of :: "real list \<Rightarrow> fval" where
  "downside_vol_of col_returns =
     (let negative_returns = filter (\<lambda>r. r < 0) col_returns
      in if length negative_returns > 0 then ftimes (std negative_returns) (sqrt 252)
         else Fin (1 / 10000))"

definition calculate_downside_volatility :: "frame \<Rightarrow> fseries" where
  "calculate_downside_volatility returns = map (\<lambda>(col, rs). (col, downside_vol_of rs)) returns"

subsection \<open>calculate\_combined\_score\<close>

text \<open>
  \<^verbatim>\<open>
  mom_3m = calculate_momentum(prices, LOOKBACK_3M)
  mom_6m = calculate_momentum(prices, LOOKBACK_6M)
  downside_vol = calculate_downside_volatility(returns)
  combined_momentum = 0.5 * mom_3m + 0.5 * mom_6m
  score = combined_momentum / downside_vol
  return score, mom_3m, mom_6m, downside_vol
  \<close>
  The two momentum series have the index of \<open>prices\<close>; the division aligns
  \<open>downside_vol\<close> with it by label, a label missing there giving NaN. (\<open>returns\<close> is derived
  from \<open>prices\<close> and has the same columns.)
\<close>

definition LOOKBACK_3M :: nat where "LOOKBACK_3M = 63"

definition LOOKBACK_6M :: nat where "LOOKBACK_6M = 126"

definition combine :: "fseries \<Rightarrow> fseries \<Rightarrow> fseries" where
  "combine mom_3m mom_6m =
     map (\<lambda>((t, a), (t', b)). (t, fadd (ftimes a (1 / 2)) (ftimes b (1 / 2)))) (zip mom_3m mom_6m)"

definition divide_aligned :: "fseries \<Rightarrow> fseries \<Rightarrow> fseries" where
  "divide_aligned num den =
     map (\<lambda>(t, a). (t, case map_of den t of None \<Rightarrow> NaN | Some b \<Rightarrow> fdivide a b)) num"

definition calculate_combined_score ::
  "frame \<Rightarrow> frame \<Rightarrow> py_error + (fseries \<times> fseries \<times> fseries \<times> fseries)" where
  "calculate_combined_score prices returns =
     bindE (calculate_momentum prices LOOKBACK_3M) (\<lambda>mom_3m.
     bindE (calculate_momentum prices LOOKBACK_6M) (\<lambda>mom_6m.
       let downside_vol = calculate_downside_volatility returns;
           combined_momentum = combine mom_3m mom_6m;
           score = divide_aligned combined_momentum downside_vol
       in Inr (score, mom_3m, mom_6m, downside_vol)))"

subsection \<open>The score as the specification words it\<close>

text \<open>
  For comparison with \<open>calculate_combined_score\<close>: the score as the sentence describing it
  reads, with \<open>prices.iloc[-lookback]\<close> for the lookbacks 63 and 126 as given and the
  downside volatility always the standard deviation of the strictly negative returns times
  \<open>sqrt(252)\<close>.
\<close>

definition spec_momentum :: "frame \<Rightarrow> nat \<Rightarrow> py_error + fseries" where
  "spec_momentum prices lookback =
     bindE (iloc_neg (nrows prices) 1) (\<lambda>i.
     bindE (iloc_neg (nrows prices) lookback) (\<lambda>j.
     Inr (map (\<lambda>(t, col). (t, fminus (fdiv (col ! i) (Fin (col ! j))) 1)) prices)))"

definition spec_downside_volatility :: "frame \<Rightarrow> fseries" where
  "spec_downside_volatility returns =
     map (\<lambda>(col, rs). (col, ftimes (std (filter (\<lambda>r. r < 0) rs)) (sqrt 252))) returns"

definition spec_score :: "frame \<Rightarrow> frame \<Rightarrow> py_error + fseries" where
  "spec_score prices returns =
     bindE (spec_momentum prices 63) (\<lambda>mom_3m.
     bindE (spec_momentum prices 126) (\<lambda>mom_6m.
     Inr (divide_aligned (combine mom_3m mom_6m) (spec_downside_volatility returns))))"

section \<open>us\_portfolio\_allocation.py: drawdown metrics\<close>

subsection \<open>Float comparison and minimum\<close>

text \<open>\<open>a < b\<close> on floats: false as soon as one side is NaN.\<close>

fun flt :: "fval \<Rightarrow> fval \<Rightarrow> bool" where
  "flt (Fin a) (Fin b) = (a < b)"
| "flt NaN _ = False"
| "flt _ NaN = False"
| "flt NInf NInf = False"
| "flt NInf _ = True"
| "flt PInf _ = False"
| "flt _ PInf = True"
| "flt _ NInf = False"

text \<open>\<open>Series.min()\<close> skips NaN and is NaN when nothing is left.\<close>

fun fmin2 :: "fval \<Rightarrow> fval \<Rightarrow> fval" where
  "fmin2 NaN v = v"
| "fmin2 v NaN = v"
| "fmin2 v w = (if flt w v then w else v)"

definition series_min :: "fval list \<Rightarrow> fval" where
  "series_min xs = fold (\<lambda>x m. fmin2 m x) xs NaN"

text \<open>Python's built-in \<open>min\<close> of a nonempty list: a later item replaces the result when it
  compares smaller.\<close>

fun py_min :: "fval list \<Rightarrow> fval" where
  "py_min [] = NaN"
| "py_min (x # xs) = fold (\<lambda>y m. if flt y m then y else m) xs x"

fun py_max :: "nat list \<Rightarrow> nat" where
  "py_max [] = 0"
| "py_max (x # xs) = fold (\<lambda>y m. if m < y then y else m) xs x"

subsection \<open>Drawdown series\<close>

text \<open>
  \<^verbatim>\<open>
  running_max = price.cummax()
  drawdown = (price - running_max) / running_max
  \<close>
\<close>

fun cummax_from :: "real \<Rightarrow> real list \<Rightarrow> real list" where
  "cummax_from m [] = []"
| "cummax_from m (x # xs) = max m x # cummax_from (max m x) xs"

fun cummax :: "real list \<Rightarrow> real list" where
  "cummax [] = []"
| "cummax (x # xs) = x # cummax_from x xs"

definition drawdown_series :: "real list \<Rightarrow> fval list" where
  "drawdown_series price = map2 (\<lambda>p m. fdiv (p - m) (Fin m)) price (cummax price)"

subsection \<open>Drawdown periods\<close>

text \<open>
  \<^verbatim>\<open>
  drawdown_periods = []
  current_period_start = None
  for i, (date, is_dd) in enumerate(in_drawdown.items()):
      if is_dd and current_period_start is None:
          current_period_start = i
      elif not is_dd and current_period_start is not None:
          drawdown_periods.append(i - current_period_start)
          current_period_start = None
  if current_period_start is not None:
      drawdown_periods.append(len(in_drawdown) - current_period_start)
  \<close>
\<close>

fun periods_loop :: "nat \<Rightarrow> nat option \<Rightarrow> nat list \<Rightarrow> bool list \<Rightarrow> nat option \<times> nat list" where
  "periods_loop i current_period_start drawdown_periods [] =
     (current_period_start, drawdown_periods)"
| "periods_loop i current_period_start drawdown_periods (is_dd # rest) =
     (case current_period_start of
        None \<Rightarrow>
          if is_dd then periods_loop (i + 1) (Some i) drawdown_periods rest
          else periods_loop (i + 1) None drawdown_periods rest
      | Some start \<Rightarrow>
          if \<not> is_dd then periods_loop (i + 1) None (drawdown_periods @ [i - start]) rest
          else periods_loop (i + 1) (Some start) drawdown_periods rest)"

definition drawdown_periods_of :: "bool list \<Rightarrow> nat list" where
  "drawdown_periods_of in_drawdown =
     (case periods_loop 0 None [] in_drawdown of
        (None, drawdown_periods) \<Rightarrow> drawdown_periods
      | (Some start, drawdown_periods) \<Rightarrow> drawdown_periods @ [length in_drawdown - start])"

subsection \<open>calculate\_drawdown\_metrics\<close>

record dd_metrics =
  max_drawdown :: fval
  max_dd_duration_days :: nat
  avg_dd_duration_days :: real
  current_drawdown :: fval
  worst_rolling_3m_dd :: fval

text \<open>
  The body of the loop over the tickers, for one column. \<open>drawdown.iloc[-1]\<close> raises
  \<open>IndexError\<close> on an empty column.
  \<^verbatim>\<open>
  max_dd = drawdown.min()
  current_dd = drawdown.iloc[-1]
  in_drawdown = drawdown < 0
  ...
  max_dd_duration = max(drawdown_periods) if drawdown_periods else 0
  avg_dd_duration = np.mean(drawdown_periods) if drawdown_periods else 0
  rolling_3m_dd = []
  window = 63
  for i in range(window, len(price)):
      window_prices = price.iloc[i-window:i]
      window_max = window_prices.cummax()
      window_dd = ((window_prices - window_max) / window_max).min()
      rolling_3m_dd.append(window_dd)
  worst_rolling_3m_dd = min(rolling_3m_dd) if rolling_3m_dd else max_dd
  \<close>
\<close>

definition rolling_3m_dd_of :: "real list \<Rightarrow> fval list" where
  "rolling_3m_dd_of price =
     map (\<lambda>i. series_min (drawdown_series (take 63 (drop (i - 63) price))))
       [63 ..< length price]"

definition drawdown_metrics_of :: "real list \<Rightarrow> py_error + dd_metrics" where
  "drawdown_metrics_of price =
     (let drawdown = drawdown_series price;
          max_dd = series_min drawdown
      in if drawdown = [] then Inl IndexError
         else
           let current_dd = last drawdown;
               in_drawdown = map (\<lambda>v. flt v (Fin 0)) drawdown;
               drawdown_periods = drawdown_periods_of in_drawdown;
               max_dd_duration = (if drawdown_periods \<noteq> [] then py_max drawdown_periods else 0);
               avg_dd_duration = (if drawdown_periods \<noteq> []
                                  then real (sum_list drawdown_periods)
                                         / real (length drawdown_periods)
                                  else 0);
               rolling_3m_dd = rolling_3m_dd_of price;
               worst = (if rolling_3m_dd \<noteq> [] then py_min rolling_3m_dd else max_dd)
           in Inr \<lparr>max_drawdown = max_dd, max_dd_duration_days = max_dd_duration,
                   avg_dd_duration_days = avg_dd_duration, current_drawdown = current_dd,
                   worst_rolling_3m_dd = worst\<rparr>)"

fun calculate_drawdown_metrics :: "frame \<Rightarrow> py_error + (string \<times> dd_metrics) list" where
  "calculate_drawdown_metrics [] = Inr []"
| "calculate_drawdown_metrics ((ticker, price) # prices) =
     bindE (drawdown_metrics_of price) (\<lambda>m.
     bindE (calculate_drawdown_metrics prices) (\<lambda>metrics. Inr ((ticker, m) # metrics)))"

text \<open>
  The drawdowns as reals, for a column of strictly positive prices (no division by zero
  there). Used in proofs only.
\<close>

definition dd_real :: "real list \<Rightarrow> real list" where
  "dd_real price = map2 (\<lambda>p m. (p - m) / m) price (cummax price)"

section \<open>us\_portfolio\_allocation.py: apply\_constraints\<close>



















section \<open>allocate.py: allocate\<close>

subsection \<open>More float operations\<close>


text \<open>\<open>Series.sum()\<close> skips NaN; \<open>clip(lower=0)\<close>; \<open>round()\<close> rounds halves to even.\<close>

definition fsum :: "fval list \<Rightarrow> fval" where
  "fsum xs = foldl fadd (Fin 0) (filter (\<lambda>v. v \<noteq> NaN) xs)"






subsection \<open>Returns\<close>





subsection \<open>Momentum and score\<close>






subsection \<open>Selection\<close>



subsection \<open>Sizing\<close>





subsection \<open>allocate\<close>




section \<open>us\_portfolio\_allocation.py: weights\<close>

subsection \<open>calculate\_sortino\_weights\<close>

text \<open>
  The scores are the floats that \<open>calculate_combined_score\<close> returns (\<open>main\<close> passes on
  those of the tickers with a positive combined momentum), so a score can be infinite or
  NaN. \<open>sortino > 0\<close> holds for a positive number and for plus infinity; \<open>sum()\<close> skips NaN.
  \<^verbatim>\<open>
  positive_sortino = sortino[sortino > 0]
  if len(positive_sortino) == 0:
      return pd.Series(dtype=float)
  weights = positive_sortino / positive_sortino.sum()
  return weights
  \<close>
\<close>

definition calculate_sortino_weights :: "fseries \<Rightarrow> fseries" where
  "calculate_sortino_weights sortino =
     (let positive_sortino = filter (\<lambda>(t, s). flt (Fin 0) s) sortino in
      if length positive_sortino = 0 then []
      else map (\<lambda>(t, s). (t, fdivide s (fsum (map snd positive_sortino)))) positive_sortino)"

section \<open>Properties\<close>

subsection \<open>Sums of finite floats\<close>

lemma sum_list_pos_entries:
  fixes xs :: "real list"
  assumes "xs \<noteq> []" and "\<forall>x \<in> set xs. 0 < x"
  shows "0 < sum_list xs"
  using assms by (induction xs) (auto intro: add_pos_nonneg sum_list_nonneg less_imp_le)

lemma sum_list_scaled:
  fixes xs :: "real list"
  shows "sum_list (map (\<lambda>x. x / c) xs) = sum_list xs / c"
  by (induction xs) (simp_all add: add_divide_distrib)

lemma foldl_fadd_Fin: "foldl fadd (Fin a) (map Fin xs) = Fin (a + sum_list xs)"
  by (induction xs arbitrary: a) (simp_all add: add.assoc)

lemma fsum_map_Fin: "fsum (map Fin xs) = Fin (sum_list xs)"
proof -
  have "filter (\<lambda>v. v \<noteq> NaN) (map Fin xs) = map Fin xs"
    by (induction xs) auto
  then show ?thesis
    by (simp add: fsum_def foldl_fadd_Fin)
qed

subsection \<open>Weights proportional to the positive scores\<close>

lemma positive_finite_scores:
  "\<forall>(t, s) \<in> set ps. \<exists>x > 0. s = Fin x \<Longrightarrow>
   \<exists>xs. map snd ps = map Fin xs \<and> (\<forall>x \<in> set xs. 0 < x)"
proof (induction ps)
  case Nil
  then show ?case by simp
next
  case (Cons p ps)
  then obtain x xs where "snd p = Fin x" "0 < x" "map snd ps = map Fin xs" "\<forall>x \<in> set xs. 0 < x"
    by (cases p) auto
  then show ?case
    by (intro exI [of _ "x # xs"]) simp
qed

lemma positive_score_cases:
  "flt (Fin 0) s \<Longrightarrow> s \<noteq> PInf \<Longrightarrow> \<exists>x > 0. s = Fin x"
  by (cases s) auto

text \<open>
  Claim C7 (as amended). For a series with no strictly positive entry,
  \<open>calculate_sortino_weights\<close> returns an empty series. For every score series that has at
  least one strictly positive entry and no entry of plus infinity, the labels of the
  returned weights are exactly the labels of the strictly positive scores (in index order),
  every weight is a positive number, namely the score times one common positive factor, and
  the weights sum to 1.
\<close>

theorem calculate_sortino_weights_spec:
  "(filter (\<lambda>(t, s). flt (Fin 0) s) sortino = [] \<longrightarrow> calculate_sortino_weights sortino = [])
   \<and> ((\<forall>(t, s) \<in> set sortino. s \<noteq> PInf) \<and> filter (\<lambda>(t, s). flt (Fin 0) s) sortino \<noteq> [] \<longrightarrow>
        map fst (calculate_sortino_weights sortino)
          = map fst (filter (\<lambda>(t, s). flt (Fin 0) s) sortino)
      \<and> (\<exists>c > 0. map snd (calculate_sortino_weights sortino)
                   = map (\<lambda>(t, s). ftimes s c) (filter (\<lambda>(t, s). flt (Fin 0) s) sortino))
      \<and> (\<forall>(t, w) \<in> set (calculate_sortino_weights sortino). \<exists>x > 0. w = Fin x)
      \<and> fsum (map snd (calculate_sortino_weights sortino)) = Fin 1)"
proof (intro conjI impI)
  assume "filter (\<lambda>(t, s). flt (Fin 0) s) sortino = []"
  then show "calculate_sortino_weights sortino = []"
    by (simp add: calculate_sortino_weights_def)
next
  assume a: "(\<forall>(t, s) \<in> set sortino. s \<noteq> PInf) \<and> filter (\<lambda>(t, s). flt (Fin 0) s) sortino \<noteq> []"
  define ps where "ps = filter (\<lambda>(t, s). flt (Fin 0) s) sortino"
  have ne: "ps \<noteq> []" using a by (simp add: ps_def)
  have "\<forall>(t, s) \<in> set ps. \<exists>x > 0. s = Fin x"
    using a positive_score_cases unfolding ps_def by fastforce
  then obtain xs where xs: "map snd ps = map Fin xs" "\<forall>x \<in> set xs. 0 < x"
    using positive_finite_scores by blast
  have "length xs = length ps"
    using xs(1) by (metis length_map)
  with ne have xne: "xs \<noteq> []" by auto
  define total where "total = sum_list xs"
  have pos: "0 < total"
    unfolding total_def by (rule sum_list_pos_entries [OF xne xs(2)])
  have tot: "fsum (map snd ps) = Fin total"
    by (simp add: xs(1) fsum_map_Fin total_def)
  have res: "calculate_sortino_weights sortino = map (\<lambda>(t, s). (t, fdivide s (Fin total))) ps"
    using ne by (simp add: calculate_sortino_weights_def ps_def [symmetric] Let_def tot)
  have vals: "map snd (calculate_sortino_weights sortino) = map (\<lambda>s. fdivide s (Fin total)) (map snd ps)"
    unfolding res by (induction ps) auto
  have vals': "map snd (calculate_sortino_weights sortino) = map Fin (map (\<lambda>x. x / total) xs)"
    unfolding vals xs(1) using pos by simp
  show "map fst (calculate_sortino_weights sortino) = map fst ps"
    unfolding res by (induction ps) auto
  have "map (\<lambda>(t, s). ftimes s (1 / total)) ps = map (\<lambda>s. ftimes s (1 / total)) (map snd ps)"
    by (induction ps) auto
  also have "\<dots> = map Fin (map (\<lambda>x. x / total) xs)"
    unfolding xs(1) by simp
  finally have "map snd (calculate_sortino_weights sortino)
                  = map (\<lambda>(t, s). ftimes s (1 / total)) ps"
    using vals' by simp
  then show "\<exists>c > 0. map snd (calculate_sortino_weights sortino) = map (\<lambda>(t, s). ftimes s c) ps"
    using pos by (intro exI [of _ "1 / total"]) simp
  show "\<forall>(t, w) \<in> set (calculate_sortino_weights sortino). \<exists>x > 0. w = Fin x"
  proof -
    have "\<forall>w \<in> set (map snd (calculate_sortino_weights sortino)). \<exists>x > 0. w = Fin x"
      unfolding vals' using xs(2) pos by auto
    then show ?thesis by auto
  qed
  have "fsum (map snd (calculate_sortino_weights sortino)) = Fin (sum_list (map (\<lambda>x. x / total) xs))"
    unfolding vals' by (rule fsum_map_Fin)
  also have "\<dots> = Fin (total / total)"
    by (simp only: sum_list_scaled total_def)
  finally show "fsum (map snd (calculate_sortino_weights sortino)) = Fin 1"
    using pos by simp
qed

theorem calculate_sortino_weights_spec_witness:
  "calculate_sortino_weights [(''XOM'', Fin 3), (''CVX'', Fin (- 2)), (''WPM'', Fin 1), (''HL'', NaN)]
     = [(''XOM'', Fin (3 / 4)), (''WPM'', Fin (1 / 4))]
   \<and> fsum (map snd (calculate_sortino_weights
        [(''XOM'', Fin 3), (''CVX'', Fin (- 2)), (''WPM'', Fin 1), (''HL'', NaN)])) = Fin 1
   \<and> calculate_sortino_weights [(''CVX'', Fin (- 2)), (''MSTR'', Fin 0)] = []"
  using calculate_sortino_weights_spec
      [of "[(''XOM'', Fin 3), (''CVX'', Fin (- 2)), (''WPM'', Fin 1), (''HL'', NaN)]"]
    calculate_sortino_weights_spec [of "[(''CVX'', Fin (- 2)), (''MSTR'', Fin 0)]"]
  by (simp add: calculate_sortino_weights_def fsum_def)

text \<open>
  Claim C7 as stated (every score series with a strictly positive entry) fails on a score
  of plus infinity, which \<open>calculate_combined_score\<close> returns for a ticker with a positive
  momentum and a downside volatility of zero: the sum is infinite, the weight of the
  infinite score is inf/inf = NaN and the weight of every finite score is 0.
\<close>

theorem calculate_sortino_weights_infinite_score:
  "calculate_sortino_weights [(''A'', PInf), (''B'', Fin 1)] = [(''A'', NaN), (''B'', Fin 0)]
   \<and> calculate_sortino_weights [(''XOM'', PInf)] = [(''XOM'', NaN)]"
  by (simp add: calculate_sortino_weights_def fsum_def)

subsection \<open>get\_latest\_nav on an empty data list\<close>

lemma bindE_Inr_iff:
  "bindE m f = Inr y \<longleftrightarrow> (\<exists>x. m = Inr x \<and> f x = Inr y)"
  by (cases m) (simp_all add: bindE_def)

text \<open>
  Claim C10. When the service answers with an object whose \<open>data\<close> member is the empty
  list (or is absent) and whose \<open>meta\<close> member, if there is one, is an object,
  \<open>get_latest_nav\<close> returns a record with \<open>nav\<close> and \<open>date\<close> both \<open>None\<close>; and every
  record it returns, for any answer, carries the requested scheme code.
\<close>

theorem get_latest_nav_empty_data:
  "(api code = Inr (JObj kvs)
      \<and> py_get (JObj kvs) ''data'' (JList []) = Inr (JList [])
      \<and> py_get (JObj kvs) ''meta'' (JObj []) = Inr (JObj ms)
    \<longrightarrow> (\<exists>r. get_latest_nav api parse code = Inr r
             \<and> nav r = None \<and> date r = JNull \<and> scheme_code r = code))
   \<and> (get_latest_nav api parse code = Inr r' \<longrightarrow> scheme_code r' = code)"
proof (intro conjI impI)
  assume a: "api code = Inr (JObj kvs)
      \<and> py_get (JObj kvs) ''data'' (JList []) = Inr (JList [])
      \<and> py_get (JObj kvs) ''meta'' (JObj []) = Inr (JObj ms)"
  then have d: "(case map_of (rev kvs) ''data'' of None \<Rightarrow> JList [] | Some v \<Rightarrow> v) = JList []"
    and m: "(case map_of (rev kvs) ''meta'' of None \<Rightarrow> JObj [] | Some v \<Rightarrow> v) = JObj ms"
    by simp_all
  from a have "api code = Inr (JObj kvs)" by simp
  then show "\<exists>r. get_latest_nav api parse code = Inr r
             \<and> nav r = None \<and> date r = JNull \<and> scheme_code r = code"
    by (simp add: get_latest_nav_def get_mf_nav_def bindE_def d m)
next
  assume "get_latest_nav api parse code = Inr r'"
  then show "scheme_code r' = code"
    unfolding get_latest_nav_def bindE_Inr_iff by auto
qed

theorem get_latest_nav_empty_data_witness:
  "get_latest_nav
     (\<lambda>c. Inr (JObj [(''meta'', JObj [(''scheme_name'', JStr ''Gold ETF'')]), (''data'', JList [])]))
     (\<lambda>s. None) 119551
   = Inr \<lparr>scheme_code = 119551, scheme_name = JStr ''Gold ETF'', fund_house = JNull,
          nav = None, date = JNull\<rparr>"
  using get_latest_nav_empty_data
    [of "\<lambda>c. Inr (JObj [(''meta'', JObj [(''scheme_name'', JStr ''Gold ETF'')]), (''data'', JList [])])"
        119551
        "[(''meta'', JObj [(''scheme_name'', JStr ''Gold ETF'')]), (''data'', JList [])]"
        "[(''scheme_name'', JStr ''Gold ETF'')]"
        "\<lambda>s. None"]
  by (simp add: get_latest_nav_def get_mf_nav_def bindE_def)

subsection \<open>The two total return indexes\<close>

lemma vec_rows:
  "zip (map fst rows)
     (map2 one_plus_times (map (\<lambda>(dt, c, d). c) rows)
        (cumsum_from acc (map fillna0 (map2 fdiv (map (\<lambda>(dt, c, d). d) rows)
            (map Fin (butlast (p # map (\<lambda>(dt, c, d). c) rows)))))))
   = vectorized_from p acc rows"
proof (induction rows arbitrary: p acc)
  case Nil
  then show ?case by simp
next
  case (Cons r rows)
  obtain dt c d where r: "r = (dt, c, d)" by (cases r) auto
  show ?case
    using Cons.IH [where p = c and acc = "fadd acc (fillna0 (fdiv d (Fin p)))"]
    by (simp add: r Let_def)
qed

lemma tr_vectorized_rows:
  "tr_vectorized ((dt, c, d) # rows) = (dt, Fin c) # vectorized_from c (Fin 0) rows"
  using vec_rows [where rows = rows and acc = "Fin 0" and p = c]
  by (simp add: tr_vectorized_def shift1_def Let_def)

lemma zero_dividends_vec:
  "\<forall>(dt, c, d) \<in> set rows. d = 0 \<Longrightarrow>
   vectorized_from p (Fin a) rows = as_floats (compound_from p a rows)"
proof (induction rows arbitrary: p)
  case Nil
  then show ?case by (simp add: as_floats_def)
next
  case (Cons r rows)
  obtain dt c d where r: "r = (dt, c, d)" by (cases r) auto
  with Cons.prems have d: "d = 0" and rest: "\<forall>(dt, c, d) \<in> set rows. d = 0" by auto
  show ?case
    using Cons.IH [OF rest, where p = c] by (simp add: r d as_floats_def Let_def)
qed

lemma zero_dividends_compound:
  "\<forall>(dt, c, d) \<in> set rows. d = 0 \<Longrightarrow>
   compound_from p 0 rows = map (\<lambda>(dt, c, d). (dt, c)) rows"
proof (induction rows arbitrary: p)
  case Nil
  then show ?case by simp
next
  case (Cons r rows)
  obtain dt c d where r: "r = (dt, c, d)" by (cases r) auto
  with Cons.prems have d: "d = 0" and rest: "\<forall>(dt, c, d) \<in> set rows. d = 0" by auto
  show ?case
    using Cons.IH [OF rest, where p = c] by (simp add: r d)
qed

lemma one_dividend_vec:
  "p \<noteq> 0 \<Longrightarrow> \<forall>(dt, c, d) \<in> set rows. c \<noteq> 0 \<Longrightarrow>
   length (filter (\<lambda>(dt, c, d). d \<noteq> 0) rows) \<le> 1 \<Longrightarrow>
   vectorized_from p (Fin 0) rows = as_floats (compound_from p 0 rows)"
proof (induction rows arbitrary: p)
  case Nil
  then show ?case by (simp add: as_floats_def)
next
  case (Cons r rows)
  obtain dt c d where r: "r = (dt, c, d)" by (cases r) auto
  from Cons.prems r have c: "c \<noteq> 0" and cs: "\<forall>(dt, c, d) \<in> set rows. c \<noteq> 0" by auto
  show ?case
  proof (cases "d = 0")
    case True
    with Cons.prems r have "length (filter (\<lambda>(dt, c, d). d \<noteq> 0) rows) \<le> 1" by simp
    from Cons.IH [OF c cs this] show ?thesis
      using Cons.prems(1) by (simp add: r True as_floats_def Let_def)
  next
    case False
    with Cons.prems r have "filter (\<lambda>(dt, c, d). d \<noteq> 0) rows = []" by simp
    then have z: "\<forall>(dt, c, d) \<in> set rows. d = 0"
      by (auto simp: filter_empty_conv)
    show ?thesis
      using zero_dividends_vec [OF z, where p = c and a = "d / p"] Cons.prems(1)
      by (simp add: r False as_floats_def Let_def)
  qed
qed

text \<open>
  Claim C4 (as amended). The vectorised index of allocate.py and the compounded index of
  us\_portfolio\_allocation.py both equal the raw close series whenever all dividends are
  zero, and they are the same series on every history with nonzero closes in which at most
  one row after the first pays a dividend. (With two or more dividends the sum of the
  yields and the product of their growth factors differ.)
\<close>

theorem total_return_forms_agree:
  "((\<forall>(dt, c, d) \<in> set h. d = 0) \<longrightarrow>
      tr_vectorized h = as_floats (map (\<lambda>(dt, c, d). (dt, c)) h)
      \<and> total_return_index h = map (\<lambda>(dt, c, d). (dt, c)) h)
   \<and> ((\<forall>(dt, c, d) \<in> set h. c \<noteq> 0) \<and> length (filter (\<lambda>(dt, c, d). d \<noteq> 0) (tl h)) \<le> 1 \<longrightarrow>
      tr_vectorized h = as_floats (total_return_index h))"
proof (cases h)
  case Nil
  then show ?thesis by (simp add: tr_vectorized_def as_floats_def shift1_def)
next
  case (Cons r rows)
  obtain dt c d where r: "r = (dt, c, d)" by (cases r) auto
  have h: "h = (dt, c, d) # rows" using Cons r by simp
  have a: "tr_vectorized h = as_floats (map (\<lambda>(dt, c, d). (dt, c)) h)
      \<and> total_return_index h = map (\<lambda>(dt, c, d). (dt, c)) h"
    if "\<forall>(dt, c, d) \<in> set h. d = 0"
  proof -
    from that h have z: "\<forall>(dt, c, d) \<in> set rows. d = 0" by auto
    show ?thesis
      using zero_dividends_vec [OF z, where p = c and a = 0] zero_dividends_compound [OF z, where p = c]
      by (simp add: h tr_vectorized_rows as_floats_def)
  qed
  have b: "tr_vectorized h = as_floats (total_return_index h)"
    if "(\<forall>(dt, c, d) \<in> set h. c \<noteq> 0) \<and> length (filter (\<lambda>(dt, c, d). d \<noteq> 0) (tl h)) \<le> 1"
  proof -
    from that h have "c \<noteq> 0" "\<forall>(dt, c, d) \<in> set rows. c \<noteq> 0"
      "length (filter (\<lambda>(dt, c, d). d \<noteq> 0) rows) \<le> 1" by auto
    from one_dividend_vec [OF this] show ?thesis
      by (simp add: h tr_vectorized_rows as_floats_def)
  qed
  from a b show ?thesis by blast
qed

theorem total_return_forms_agree_witness:
  "tr_vectorized [(0, 10, 0), (1, 10, 1), (2, 12, 0)]
     = as_floats (total_return_index [(0, 10, 0), (1, 10, 1), (2, 12, 0)])
   \<and> tr_vectorized [(0, 10, 0), (1, 11, 0)] = [(0, Fin 10), (1, Fin 11)]
   \<and> total_return_index [(0, 10, 0), (1, 11, 0)] = [(0, 10), (1, 11)]"
  using total_return_forms_agree [of "[(0, 10, 0), (1, 10, 1), (2, 12, 0)]"]
    total_return_forms_agree [of "[(0, 10, 0), (1, 11, 0)]"]
  by (simp add: as_floats_def)

text \<open>
  Claim C4 as stated fails: with a close of 1 throughout and a dividend of 1 on the second
  and on the third day, the vectorised index ends at \<open>1 * (1 + (1 + 1)) = 3\<close> and the
  compounded index at \<open>1 * (2 * 2) = 4\<close>.
\<close>

theorem total_return_forms_differ:
  "tr_vectorized [(0, 1, 0), (1, 1, 1), (2, 1, 1)] = [(0, Fin 1), (1, Fin 2), (2, Fin 3)]
   \<and> as_floats (total_return_index [(0, 1, 0), (1, 1, 1), (2, 1, 1)])
       = [(0, Fin 1), (1, Fin 2), (2, Fin 4)]"
  by (simp add: tr_vectorized_def as_floats_def shift1_def)

subsection \<open>Errors while fetching\<close>

lemma collect_cdn_Inr: "\<exists>out. collect_cdn yf tickers dfs = Inr out"
  by (induction tickers arbitrary: dfs) (auto split: sum.splits)

lemma collect_cdn_skips:
  "collect_cdn yf tickers dfs = collect_cdn yf (filter (\<lambda>t. \<not> isl (yf t)) tickers) dfs"
  by (induction tickers arbitrary: dfs) (auto split: sum.splits)

lemma collect_cdn_is_us:
  "\<forall>t \<in> set tickers. \<not> isl (yf t) \<Longrightarrow> collect_cdn yf tickers dfs = collect_us yf tickers dfs"
  by (induction tickers arbitrary: dfs) (auto split: sum.splits)

lemma collect_us_raises:
  "\<forall>t \<in> set pre. \<not> isl (yf t) \<Longrightarrow> yf t = Inl e \<Longrightarrow>
   collect_us yf (pre @ t # post) dfs = Inl e"
  by (induction pre arbitrary: dfs) (auto split: sum.splits)

lemma collect_alloc_raises:
  "\<forall>t \<in> set pre. \<not> isl (yf t) \<Longrightarrow> yf t = Inl e \<Longrightarrow>
   collect_alloc yf (pre @ t # post) dfs = Inl e"
  by (induction pre arbitrary: dfs) (auto split: sum.splits)

text \<open>
  Claim C3 (as amended). In canadian\_nyse\_only.py's \<open>fetch_total_return_index\<close> an
  exception raised while fetching one ticker's history is caught: the routine always
  returns a frame, and it is the frame obtained from the ticker list with the failing
  tickers removed. In us\_portfolio\_allocation.py's \<open>fetch_total_return_index\<close> and in
  allocate.py's \<open>fetch\<close> nothing is caught: the exception of the first failing ticker
  leaves the routine.
\<close>

theorem fetch_error_handling:
  "(\<exists>df. cdn_fetch_total_return_index yf tickers = Inr df)
   \<and> cdn_fetch_total_return_index yf tickers
       = cdn_fetch_total_return_index yf (filter (\<lambda>t. \<not> isl (yf t)) tickers)
   \<and> ((\<forall>t \<in> set pre. \<not> isl (yf t)) \<and> yf t = Inl e \<longrightarrow>
        fetch_total_return_index yf (pre @ t # post) = Inl e
        \<and> fetch yf (pre @ t # post) = Inl e)"
proof (intro conjI impI)
  obtain out where "collect_cdn yf tickers [] = Inr out"
    using collect_cdn_Inr by blast
  then show "\<exists>df. cdn_fetch_total_return_index yf tickers = Inr df"
    by (simp add: cdn_fetch_total_return_index_def bindE_def)
next
  show "cdn_fetch_total_return_index yf tickers
       = cdn_fetch_total_return_index yf (filter (\<lambda>t. \<not> isl (yf t)) tickers)"
    unfolding cdn_fetch_total_return_index_def
    using collect_cdn_skips [of yf tickers "[]"] by simp
next
  assume a: "(\<forall>t \<in> set pre. \<not> isl (yf t)) \<and> yf t = Inl e"
  then show "fetch_total_return_index yf (pre @ t # post) = Inl e"
    by (simp add: fetch_total_return_index_def bindE_def collect_us_raises)
  from a show "fetch yf (pre @ t # post) = Inl e"
    by (simp add: fetch_def bindE_def collect_alloc_raises)
qed

theorem fetch_error_handling_witness:
  "cdn_fetch_total_return_index flaky_yf [''CVX'', ''XOM'', ''SU'']
     = cdn_fetch_total_return_index flaky_yf [''CVX'', ''SU'']
   \<and> fetch_total_return_index flaky_yf ([''CVX''] @ ''XOM'' # [''SU'']) = Inl HTTPError
   \<and> fetch flaky_yf ([''CVX''] @ ''XOM'' # [''SU'']) = Inl HTTPError"
  using fetch_error_handling [of flaky_yf "[''CVX'', ''XOM'', ''SU'']" "[''CVX'']" "''XOM''" HTTPError "[''SU'']"]
  by (simp add: flaky_yf_def)

text \<open>
  Claim C3 as stated fails: with the request for XOM failing, the routines of
  us\_portfolio\_allocation.py and allocate.py raise the HTTP error instead of skipping XOM
  and returning the frame for CVX, which is what canadian\_nyse\_only.py's routine does.
\<close>

theorem fetch_error_not_caught:
  "fetch_total_return_index flaky_yf [''XOM'', ''CVX''] = Inl HTTPError
   \<and> fetch flaky_yf [''XOM'', ''CVX''] = Inl HTTPError
   \<and> fetch_total_return_index flaky_yf [''CVX'']
       = Inr \<lparr>index = [0, 1], columns = [(''CVX'', [Fin 100, Fin 101])]\<rparr>
   \<and> cdn_fetch_total_return_index flaky_yf [''XOM'', ''CVX'']
       = Inr \<lparr>index = [0, 1], columns = [(''CVX'', [Fin 100, Fin 101])]\<rparr>"
  by (simp add: fetch_total_return_index_def fetch_def cdn_fetch_total_return_index_def
      bindE_def flaky_yf_def as_floats_def concat_dropna_def List.map_filter_def)

subsection \<open>The combined score\<close>

lemma map_of_column:
  "distinct (map fst prices) \<Longrightarrow> (t, col) \<in> set prices \<Longrightarrow>
   map_of (map (\<lambda>(t, col). (t, f t col)) prices) t = Some (f t col)"
  by (induction prices) (auto simp: rev_image_eqI)

lemma iloc_neg_clamped:
  "0 < n \<Longrightarrow> 0 < k \<Longrightarrow> iloc_neg n (if n < k then n else k) = Inr (n - min k n)"
  by (auto simp: iloc_neg_def min_def)

lemma calculate_momentum_value:
  assumes "0 < nrows prices" and "0 < k"
  shows "calculate_momentum prices k =
           Inr (map (\<lambda>(t, col). (t, fminus (fdiv (col ! (nrows prices - 1))
                  (Fin (col ! (nrows prices - min k (nrows prices))))) 1)) prices)"
proof -
  have i: "iloc_neg (nrows prices) 1 = Inr (nrows prices - 1)"
    using assms(1) by (simp add: iloc_neg_def)
  show ?thesis
    unfolding calculate_momentum_def Let_def
    by (simp only: i iloc_neg_clamped [OF assms] bindE_def sum.case)
qed

lemma combine_columns:
  "combine (map (\<lambda>(t, col). (t, f col)) prices) (map (\<lambda>(t, col). (t, g col)) prices)
     = map (\<lambda>(t, col). (t, fadd (ftimes (f col) (1 / 2)) (ftimes (g col) (1 / 2)))) prices"
  by (induction prices) (auto simp: combine_def)

lemma divide_aligned_columns:
  "divide_aligned (map (\<lambda>(t, col). (t, f col)) prices) den
     = map (\<lambda>(t, col). (t, case map_of den t of None \<Rightarrow> NaN | Some b \<Rightarrow> fdivide (f col) b)) prices"
  by (induction prices) (auto simp: divide_aligned_def)

lemma map_of_downside:
  "map_of (calculate_downside_volatility returns) t = map_option downside_vol_of (map_of returns t)"
  by (induction returns) (auto simp: calculate_downside_volatility_def)

text \<open>
  Claim C6 (as amended). For every ticker of a frame of prices with at least one row, the
  score is \<open>(0.5 * mom_3m + 0.5 * mom_6m) / downside_vol\<close>, where the two momenta are
  \<open>prices.iloc[-1] / prices.iloc[-lookback] - 1\<close> for the lookbacks 63 and 126, each
  clamped to the number of rows of the frame, and the downside volatility is the standard
  deviation of the ticker's strictly negative daily returns times \<open>sqrt(252)\<close>, or 0.0001
  when the ticker has no strictly negative return. (The base prices are taken nonzero.)
\<close>

theorem combined_score_formula:
  assumes "wf_frame prices" and "(t, ps) \<in> set prices" and "n = nrows prices" and "0 < n"
    and "ps ! (n - min 63 n) \<noteq> 0" and "ps ! (n - min 126 n) \<noteq> 0"
    and "map_of returns t = Some rs"
  shows "\<exists>score mom_3m mom_6m downside_vol.
           calculate_combined_score prices returns = Inr (score, mom_3m, mom_6m, downside_vol)
         \<and> map_of score t =
             Some (fdivide
               (Fin (0.5 * (last ps / ps ! (n - min 63 n) - 1)
                     + 0.5 * (last ps / ps ! (n - min 126 n) - 1)))
               (if filter (\<lambda>r. r < 0) rs = [] then Fin 0.0001
                else ftimes (std (filter (\<lambda>r. r < 0) rs)) (sqrt 252)))"
proof -
  let ?m = "\<lambda>k col. fminus (fdiv (col ! (n - 1)) (Fin (col ! (n - min k n)))) 1"
  let ?sc = "\<lambda>col. fadd (ftimes (?m 63 col) (1 / 2)) (ftimes (?m 126 col) (1 / 2))"
  let ?dv = "calculate_downside_volatility returns"
  let ?score = "map (\<lambda>(t, col). (t, case map_of ?dv t of None \<Rightarrow> NaN
                                      | Some b \<Rightarrow> fdivide (?sc col) b)) prices"
  have m3: "calculate_momentum prices LOOKBACK_3M = Inr (map (\<lambda>(t, col). (t, ?m 63 col)) prices)"
    using calculate_momentum_value [of prices 63] assms(3,4) by (simp add: LOOKBACK_3M_def)
  have m6: "calculate_momentum prices LOOKBACK_6M = Inr (map (\<lambda>(t, col). (t, ?m 126 col)) prices)"
    using calculate_momentum_value [of prices 126] assms(3,4) by (simp add: LOOKBACK_6M_def)
  have res: "calculate_combined_score prices returns
               = Inr (?score, map (\<lambda>(t, col). (t, ?m 63 col)) prices,
                      map (\<lambda>(t, col). (t, ?m 126 col)) prices, ?dv)"
    unfolding calculate_combined_score_def m3 m6 bindE_def Let_def sum.case
      combine_columns [of "?m 63" prices "?m 126"]
      divide_aligned_columns [of ?sc prices ?dv]
    by (rule refl)
  have len: "length ps = n"
    using assms(1,2,3) by (auto simp: wf_frame_def)
  then have last: "ps ! (n - 1) = last ps"
    using assms(4) by (cases ps) (auto simp: last_conv_nth)
  have dist: "distinct (map fst prices)"
    using assms(1) by (simp add: wf_frame_def)
  have "map_of ?score t
          = Some (case map_of ?dv t of None \<Rightarrow> NaN | Some b \<Rightarrow> fdivide (?sc ps) b)"
    using map_of_column [OF dist assms(2),
        of "\<lambda>t col. case map_of ?dv t of None \<Rightarrow> NaN | Some b \<Rightarrow> fdivide (?sc col) b"]
    by simp
  also have "map_of ?dv t = Some (downside_vol_of rs)"
    by (simp add: map_of_downside assms(7))
  finally have sc: "map_of ?score t = Some (fdivide (?sc ps) (downside_vol_of rs))"
    by simp
  have num: "?sc ps = Fin (0.5 * (last ps / ps ! (n - min 63 n) - 1)
                     + 0.5 * (last ps / ps ! (n - min 126 n) - 1))"
    using assms(5,6) last by simp
  have den: "downside_vol_of rs = (if filter (\<lambda>r. r < 0) rs = [] then Fin 0.0001
                else ftimes (std (filter (\<lambda>r. r < 0) rs)) (sqrt 252))"
    by (simp add: downside_vol_of_def Let_def)
  show ?thesis
    using res sc num den by (intro exI conjI) simp_all
qed


theorem combined_score_formula_witness:
  "(case calculate_combined_score [(''XOM'', [8, 4, 3, 6])] [(''XOM'', [- 1 / 2, - 1 / 4, 1])] of
      Inl e \<Rightarrow> False
    | Inr (score, mom_3m, mom_6m, downside_vol) \<Rightarrow>
        map_of score ''XOM''
          = Some (fdivide (Fin (- 1 / 4)) (ftimes (std [- 1 / 2, - 1 / 4]) (sqrt 252))))"
  using combined_score_formula [of "[(''XOM'', [8, 4, 3, 6])]" "''XOM''" "[8, 4, 3, 6]" 4
      "[(''XOM'', [- 1 / 2, - 1 / 4, 1])]" "[- 1 / 2, - 1 / 4, 1]"]
  by (auto simp: wf_frame_def nrows_def)

text \<open>
  Claim C6 as stated fails. On a frame of three rows the script clamps both lookbacks to 3
  and returns a score, where \<open>prices.iloc[-63]\<close> is out of range; and for a ticker of a
  126-row frame without a strictly negative return the script divides by 0.0001, where the
  standard deviation of no values is NaN.
\<close>

theorem combined_score_differs:
  "calculate_combined_score [(''XOM'', [100, 110, 121])] [(''XOM'', [1 / 10, 1 / 10])]
     = Inr ([(''XOM'', Fin 2100)], [(''XOM'', Fin (21 / 100))], [(''XOM'', Fin (21 / 100))],
            [(''XOM'', Fin (1 / 10000))])
   \<and> spec_score [(''XOM'', [100, 110, 121])] [(''XOM'', [1 / 10, 1 / 10])] = Inl IndexError
   \<and> calculate_combined_score [(''XOM'', replicate 125 100 @ [121])]
        [(''XOM'', replicate 124 0 @ [21 / 100])]
     = Inr ([(''XOM'', Fin 2100)], [(''XOM'', Fin (21 / 100))], [(''XOM'', Fin (21 / 100))],
            [(''XOM'', Fin (1 / 10000))])
   \<and> spec_score [(''XOM'', replicate 125 100 @ [121])] [(''XOM'', replicate 124 0 @ [21 / 100])]
     = Inr [(''XOM'', NaN)]"
  by (simp add: calculate_combined_score_def calculate_momentum_def spec_score_def
      spec_momentum_def spec_downside_volatility_def calculate_downside_volatility_def
      downside_vol_of_def combine_def divide_aligned_def iloc_neg_def nrows_def bindE_def
      LOOKBACK_3M_def LOOKBACK_6M_def std_def nth_append)

subsection \<open>Downside volatility of zero\<close>

text \<open>
  Claim C8, evaluated where it fails. A ticker whose strictly negative daily returns are all
  equal (here two returns of -1 percent) has a standard deviation of 0: the fallback of
  0.0001 is not taken, \<open>calculate_downside_volatility\<close> returns 0 for it, and
  \<open>calculate_combined_score\<close> divides the positive combined momentum by zero, giving an
  infinite score.
\<close>

theorem downside_volatility_zero:
  "calculate_downside_volatility [(''XOM'', [- 1 / 100, 1 / 33, - 1 / 100])] = [(''XOM'', Fin 0)]
   \<and> calculate_combined_score [(''XOM'', [10000, 9900, 10200, 10098])]
        [(''XOM'', [- 1 / 100, 1 / 33, - 1 / 100])]
     = Inr ([(''XOM'', PInf)], [(''XOM'', Fin (49 / 5000))], [(''XOM'', Fin (49 / 5000))],
            [(''XOM'', Fin 0)])"
  by (simp add: calculate_combined_score_def calculate_momentum_def
      calculate_downside_volatility_def downside_vol_of_def combine_def divide_aligned_def
      iloc_neg_def nrows_def bindE_def LOOKBACK_3M_def LOOKBACK_6M_def std_def mean_def)

subsection \<open>Drawdown metrics\<close>

lemma cummax_from_bounds:
  "(p, mx) \<in> set (zip xs (cummax_from m xs)) \<Longrightarrow> p \<le> mx \<and> m \<le> mx"
proof (induction xs arbitrary: m)
  case Nil
  then show ?case by simp
next
  case (Cons x xs)
  from Cons.prems have "(p = x \<and> mx = max m x) \<or> (p, mx) \<in> set (zip xs (cummax_from (max m x) xs))"
    by auto
  then show ?case
    using Cons.IH [of "max m x"] by auto
qed

lemma cummax_bounds:
  "(p, mx) \<in> set (zip xs (cummax xs)) \<Longrightarrow> p \<le> mx \<and> hd xs \<le> mx"
  by (cases xs) (auto dest: cummax_from_bounds)

lemma length_cummax_from: "length (cummax_from m xs) = length xs"
  by (induction xs arbitrary: m) auto

lemma length_cummax: "length (cummax xs) = length xs"
  by (cases xs) (auto simp: length_cummax_from)

lemma drawdown_series_positive:
  assumes "\<forall>p \<in> set price. 0 < p"
  shows "drawdown_series price = map Fin (dd_real price)"
    and "\<forall>d \<in> set (dd_real price). d \<le> 0"
    and "length (dd_real price) = length price"
proof -
  have pos: "0 < mx \<and> p \<le> mx" if "(p, mx) \<in> set (zip price (cummax price))" for p mx
  proof -
    from that have "price \<noteq> []" by auto
    then have "0 < hd price" using assms by simp
    with cummax_bounds [OF that] show ?thesis by simp
  qed
  show "drawdown_series price = map Fin (dd_real price)"
    unfolding drawdown_series_def dd_real_def map_map
    by (rule map_cong [OF refl]) (use pos in fastforce)
  show "\<forall>d \<in> set (dd_real price). d \<le> 0"
  proof
    fix d assume "d \<in> set (dd_real price)"
    then obtain p mx where "(p, mx) \<in> set (zip price (cummax price))" "d = (p - mx) / mx"
      unfolding dd_real_def by auto
    with pos [of p mx] show "d \<le> 0"
      by (simp add: divide_nonpos_pos)
  qed
  show "length (dd_real price) = length price"
    by (simp add: dd_real_def length_cummax)
qed

lemma fold_fmin2_Fin:
  "fold (\<lambda>x m. fmin2 m x) (map Fin ds) (Fin a) = Fin (fold min ds a)"
  by (induction ds arbitrary: a) (auto simp: min_def)

lemma series_min_Fin:
  "ds \<noteq> [] \<Longrightarrow> series_min (map Fin ds) = Fin (Min (set ds))"
proof (cases ds)
  case Nil
  then show "ds \<noteq> [] \<Longrightarrow> ?thesis" by simp
next
  case (Cons d ds')
  show ?thesis
    by (simp add: Cons series_min_def fold_fmin2_Fin Min.set_eq_fold [symmetric])
qed

lemma fold_py_min_Fin:
  "fold (\<lambda>y m. if flt y m then y else m) (map Fin ds) (Fin a) = Fin (fold min ds a)"
  by (induction ds arbitrary: a) (auto simp: min_def)

lemma py_min_Fin:
  "ds \<noteq> [] \<Longrightarrow> py_min (map Fin ds) = Fin (Min (set ds))"
proof (cases ds)
  case Nil
  then show "ds \<noteq> [] \<Longrightarrow> ?thesis" by simp
next
  case (Cons d ds')
  show ?thesis
    by (simp add: Cons fold_py_min_Fin Min.set_eq_fold [symmetric])
qed

lemma fold_py_max:
  "fold (\<lambda>y m. if m < y then y else m) xs (a::nat) = fold max xs a"
  by (induction xs arbitrary: a) (auto simp: max_def)

lemma py_max_Max: "xs \<noteq> [] \<Longrightarrow> py_max xs = Max (set xs)"
  by (cases xs) (simp_all add: fold_py_max Max.set_eq_fold [symmetric])

lemma sum_list_le_length_times:
  "\<forall>x \<in> set xs. x \<le> (M::nat) \<Longrightarrow> sum_list xs \<le> length xs * M"
  by (induction xs) auto

lemma mean_le_Max:
  assumes "xs \<noteq> []"
  shows "real (sum_list xs) / real (length xs) \<le> real (Max (set xs))"
proof -
  have "sum_list xs \<le> length xs * Max (set xs)"
    by (rule sum_list_le_length_times) simp
  then have "real (sum_list xs) \<le> real (length xs) * real (Max (set xs))"
    by (metis of_nat_le_iff of_nat_mult)
  moreover have "0 < real (length xs)" using assms by simp
  ultimately show ?thesis
    by (simp add: pos_divide_le_eq mult.commute)
qed

lemma all_Fin_nonpos:
  "\<forall>v \<in> set vs. \<exists>c. v = Fin c \<and> c \<le> 0 \<Longrightarrow>
   \<exists>cs. vs = map Fin cs \<and> (\<forall>c \<in> set cs. c \<le> (0::real))"
proof (induction vs)
  case Nil
  then show ?case by simp
next
  case (Cons v vs)
  then obtain c cs where "v = Fin c" "c \<le> 0" "vs = map Fin cs" "\<forall>c \<in> set cs. c \<le> 0"
    by auto
  then show ?case
    by (intro exI [of _ "c # cs"]) simp
qed

lemma window_min_nonpos:
  assumes "\<forall>p \<in> set w. 0 < p" and "w \<noteq> []"
  shows "\<exists>c. series_min (drawdown_series w) = Fin c \<and> c \<le> 0"
proof -
  have ne: "dd_real w \<noteq> []"
    using drawdown_series_positive(3) [OF assms(1)] assms(2) by auto
  have "Min (set (dd_real w)) \<le> 0"
    using drawdown_series_positive(2) [OF assms(1)] ne by (simp add: Min_le_iff)
  then show ?thesis
    by (simp add: drawdown_series_positive(1) [OF assms(1)] series_min_Fin [OF ne])
qed

lemma rolling_nonpos:
  assumes "\<forall>p \<in> set price. 0 < p"
  shows "\<exists>cs. rolling_3m_dd_of price = map Fin cs \<and> (\<forall>c \<in> set cs. c \<le> 0)"
proof -
  have "\<exists>c. series_min (drawdown_series (take 63 (drop (i - 63) price))) = Fin c \<and> c \<le> 0"
    if "i \<in> set [63 ..< length price]" for i
  proof (rule window_min_nonpos)
    show "\<forall>p \<in> set (take 63 (drop (i - 63) price)). 0 < p"
      using assms by (meson in_set_dropD in_set_takeD)
    show "take 63 (drop (i - 63) price) \<noteq> []"
      using that by auto
  qed
  then have "\<forall>v \<in> set (rolling_3m_dd_of price). \<exists>c. v = Fin c \<and> c \<le> 0"
    unfolding rolling_3m_dd_of_def by auto
  then show ?thesis
    by (rule all_Fin_nonpos)
qed


lemma drawdown_metrics_positive:
  assumes "price \<noteq> []" and "\<forall>p \<in> set price. 0 < p"
  shows "\<exists>m a b c. drawdown_metrics_of price = Inr m
           \<and> max_drawdown m = Fin a \<and> current_drawdown m = Fin b
           \<and> worst_rolling_3m_dd m = Fin c
           \<and> a \<le> b \<and> b \<le> 0 \<and> c \<le> 0
           \<and> 0 \<le> avg_dd_duration_days m
           \<and> avg_dd_duration_days m \<le> real (max_dd_duration_days m)"
proof -
  let ?ds = "dd_real price"
  have dd: "drawdown_series price = map Fin ?ds"
    by (rule drawdown_series_positive(1) [OF assms(2)])
  have ne: "?ds \<noteq> []"
    using drawdown_series_positive(3) [OF assms(2)] assms(1) by auto
  have nonpos: "\<forall>d \<in> set ?ds. d \<le> 0"
    by (rule drawdown_series_positive(2) [OF assms(2)])
  have mx: "series_min (drawdown_series price) = Fin (Min (set ?ds))"
    by (simp add: dd series_min_Fin [OF ne])
  have cur: "last (drawdown_series price) = Fin (last ?ds)"
    by (simp add: dd last_map [OF ne])
  have ab: "Min (set ?ds) \<le> last ?ds" using ne by simp
  have b0: "last ?ds \<le> 0" using nonpos ne by simp
  obtain cs where cs: "rolling_3m_dd_of price = map Fin cs" "\<forall>c \<in> set cs. c \<le> 0"
    using rolling_nonpos [OF assms(2)] by blast
  let ?worst = "if rolling_3m_dd_of price \<noteq> [] then py_min (rolling_3m_dd_of price)
                else series_min (drawdown_series price)"
  have "\<exists>c. ?worst = Fin c \<and> c \<le> 0"
  proof (cases "cs = []")
    case True
    then show ?thesis
      using mx ab b0 by (simp add: cs(1))
  next
    case False
    then have "Min (set cs) \<le> 0" using cs(2) by (simp add: Min_le_iff)
    then show ?thesis
      using False by (simp add: cs(1) py_min_Fin)
  qed
  then obtain c where c: "?worst = Fin c" "c \<le> 0" by blast
  have ne': "drawdown_series price \<noteq> []"
    using ne by (simp add: dd)
  show ?thesis
    unfolding drawdown_metrics_of_def Let_def
    using ab b0 c(2)
    by (simp add: ne' mx cur c(1) py_max_Max mean_le_Max del: py_max.simps)
qed


text \<open>
  Claim C9 (as amended). For a frame whose columns are nonempty series of strictly positive
  prices, \<open>calculate_drawdown_metrics\<close> returns metrics for every ticker, all finite, with
  \<open>max_drawdown \<le> current_drawdown \<le> 0\<close>, \<open>worst_rolling_3m_dd \<le> 0\<close> and
  \<open>max_dd_duration_days \<ge> avg_dd_duration_days \<ge> 0\<close>.
\<close>

theorem drawdown_metrics_bounds:
  assumes "\<forall>(t, price) \<in> set prices. price \<noteq> [] \<and> (\<forall>p \<in> set price. 0 < p)"
  shows "\<exists>metrics. calculate_drawdown_metrics prices = Inr metrics
           \<and> map fst metrics = map fst prices
           \<and> (\<forall>(t, m) \<in> set metrics. \<exists>a b c.
                 max_drawdown m = Fin a \<and> current_drawdown m = Fin b
                 \<and> worst_rolling_3m_dd m = Fin c
                 \<and> a \<le> b \<and> b \<le> 0 \<and> c \<le> 0
                 \<and> 0 \<le> avg_dd_duration_days m
                 \<and> avg_dd_duration_days m \<le> real (max_dd_duration_days m))"
  using assms
proof (induction prices)
  case Nil
  then show ?case by simp
next
  case (Cons tp prices)
  obtain t price where tp: "tp = (t, price)" by (cases tp) auto
  from Cons.prems tp have "price \<noteq> []" "\<forall>p \<in> set price. 0 < p" by auto
  from drawdown_metrics_positive [OF this]
  obtain m a b c where m: "drawdown_metrics_of price = Inr m"
    "max_drawdown m = Fin a" "current_drawdown m = Fin b" "worst_rolling_3m_dd m = Fin c"
    "a \<le> b" "b \<le> 0" "c \<le> 0" "0 \<le> avg_dd_duration_days m"
    "avg_dd_duration_days m \<le> real (max_dd_duration_days m)"
    by blast
  from Cons.IH Cons.prems
  obtain metrics where ms: "calculate_drawdown_metrics prices = Inr metrics"
    "map fst metrics = map fst prices"
    "\<forall>(t, m) \<in> set metrics. \<exists>a b c.
                 max_drawdown m = Fin a \<and> current_drawdown m = Fin b
                 \<and> worst_rolling_3m_dd m = Fin c
                 \<and> a \<le> b \<and> b \<le> 0 \<and> c \<le> 0
                 \<and> 0 \<le> avg_dd_duration_days m
                 \<and> avg_dd_duration_days m \<le> real (max_dd_duration_days m)"
    by auto
  have "calculate_drawdown_metrics (tp # prices) = Inr ((t, m) # metrics)"
    by (simp add: tp m(1) ms(1) bindE_def)
  moreover have "map fst ((t, m) # metrics) = map fst (tp # prices)"
    by (simp add: tp ms(2))
  moreover have "\<forall>(t, m) \<in> set ((t, m) # metrics). \<exists>a b c.
                 max_drawdown m = Fin a \<and> current_drawdown m = Fin b
                 \<and> worst_rolling_3m_dd m = Fin c
                 \<and> a \<le> b \<and> b \<le> 0 \<and> c \<le> 0
                 \<and> 0 \<le> avg_dd_duration_days m
                 \<and> avg_dd_duration_days m \<le> real (max_dd_duration_days m)"
    using m(2-) ms(3) by auto
  ultimately show ?case by blast
qed

theorem drawdown_metrics_bounds_witness:
  "calculate_drawdown_metrics [(''XOM'', [100, 80, 90, 120, 60])]
     = Inr [(''XOM'', \<lparr>max_drawdown = Fin (- 1 / 2), max_dd_duration_days = 2,
                        avg_dd_duration_days = 3 / 2, current_drawdown = Fin (- 1 / 2),
                        worst_rolling_3m_dd = Fin (- 1 / 2)\<rparr>)]"
  using drawdown_metrics_bounds [of "[(''XOM'', [100, 80, 90, 120, 60])]"]
  by (simp add: drawdown_metrics_of_def drawdown_series_def series_min_def
      drawdown_periods_of_def rolling_3m_dd_of_def bindE_def Let_def)

text \<open>
  Claim C9 as stated (every nonempty series) fails on series that are not strictly
  positive: for the series -1, -2 the running maximum is negative and the current drawdown
  is +1; for the series 0 the drawdown is 0/0, so the maximum and the current drawdown are
  NaN.
\<close>

theorem drawdown_metrics_nonpositive_prices:
  "calculate_drawdown_metrics [(''XOM'', [- 1, - 2])]
     = Inr [(''XOM'', \<lparr>max_drawdown = Fin 0, max_dd_duration_days = 0,
                        avg_dd_duration_days = 0, current_drawdown = Fin 1,
                        worst_rolling_3m_dd = Fin 0\<rparr>)]
   \<and> calculate_drawdown_metrics [(''XOM'', [0])]
     = Inr [(''XOM'', \<lparr>max_drawdown = NaN, max_dd_duration_days = 0,
                        avg_dd_duration_days = 0, current_drawdown = NaN,
                        worst_rolling_3m_dd = NaN\<rparr>)]"
  by (simp add: drawdown_metrics_of_def drawdown_series_def series_min_def
      drawdown_periods_of_def rolling_3m_dd_of_def bindE_def Let_def)

subsection \<open>The constraint loop\<close>

























subsection \<open>allocate: selection, sizing and rounding\<close>










































end
